theory Spec2Isabelle
  imports Main
begin

section \<open>Text, exceptions and platform data\<close>

text \<open>
  A Python \<open>str\<close> is a sequence of code points and \<open>len\<close> counts them, so text is a
  list of code points. \<open>lit\<close> turns an ASCII literal of the source into such a list; the
  cross mark that starts the gates' notices is the single code point U+274C.
\<close>

type_synonym pystr = "nat list"

definition lit :: "string \<Rightarrow> pystr" where
  "lit s = map of_char s"

definition cross_mark :: pystr where
  "cross_mark = [10060]"

text \<open>
  The exceptions the handlers tell apart. \<open>except Exception\<close> catches every constructor,
  \<open>except UserAdminInvalid\<close> only the first. Each carries the text that \<open>str(e)\<close> gives.
  Exceptions outside \<open>Exception\<close> (task cancellation, interpreter exit) are not modelled.
\<close>

datatype exn =
    UserAdminInvalid pystr
  | AttributeError pystr
  | TypeError pystr
  | Exception pystr

fun str :: "exn \<Rightarrow> pystr" where
  "str (UserAdminInvalid d) = d"
| "str (AttributeError d) = d"
| "str (TypeError d) = d"
| "str (Exception d) = d"

fun is_UserAdminInvalid :: "exn \<Rightarrow> bool" where
  "is_UserAdminInvalid (UserAdminInvalid d) = True"
| "is_UserAdminInvalid e = False"

datatype ChatType = PRIVATE | BOT | GROUP | SUPERGROUP | CHANNEL

datatype ChatMemberStatus = OWNER | ADMINISTRATOR | MEMBER | RESTRICTED | LEFT | BANNED

record chat =
  chat_id :: int
  chat_type :: ChatType

text \<open>
  A chat member as the gates read it: \<open>member.user.id\<close>, \<open>member.status\<close> and
  \<open>member.privileges\<close>, which is \<open>None\<close> or an object whose named attributes are
  truth values.
\<close>

record chat_member =
  user_id :: int
  status :: ChatMemberStatus
  privileges :: "(pystr \<rightharpoonup> bool) option"

text \<open>
  The message of a command: \<open>message.chat\<close>, the identifier of \<open>message.from_user\<close>
  (\<open>None\<close> for a message with no sending user) and \<open>message.text\<close>.
\<close>

record message =
  msg_chat :: chat
  from_user :: "int option"
  msg_text :: "pystr option"

text \<open>The second argument of \<open>get_chat_member\<close>: the string \<open>"me"\<close> or a user identifier.\<close>

datatype who = Me | User int

section \<open>Programs with state and exceptions\<close>

text \<open>
  A coroutine of the source is a function from the state before to an outcome and the
  state after; the outcome is the raised exception (\<open>Inl\<close>) or the returned value.
\<close>

type_synonym ('s, 'a) prog = "'s \<Rightarrow> (exn + 'a) \<times> 's"

definition ret :: "'a \<Rightarrow> ('s, 'a) prog" where
  "ret a s = (Inr a, s)"

definition raise :: "exn \<Rightarrow> ('s, 'a) prog" where
  "raise e s = (Inl e, s)"

definition bind_prog :: "('s, 'a) prog \<Rightarrow> ('a \<Rightarrow> ('s, 'b) prog) \<Rightarrow> ('s, 'b) prog" where
  "bind_prog m f s = (case m s of (Inl e, s') \<Rightarrow> (Inl e, s') | (Inr a, s') \<Rightarrow> f a s')"

text \<open>\<open>try: m except Exception as e: h e\<close>\<close>

definition try_except :: "('s, 'a) prog \<Rightarrow> (exn \<Rightarrow> ('s, 'a) prog) \<Rightarrow> ('s, 'a) prog" where
  "try_except m h s = (case m s of (Inl e, s') \<Rightarrow> h e s' | (Inr a, s') \<Rightarrow> (Inr a, s'))"

text \<open>
  \<open>try: m finally: c\<close>. The clean-up runs after every outcome of \<open>m\<close>; the outcome of
  \<open>m\<close> stands unless the clean-up itself raises.
\<close>

definition try_finally :: "('s, 'a) prog \<Rightarrow> ('s, unit) prog \<Rightarrow> ('s, 'a) prog" where
  "try_finally m c s =
     (case m s of (r, s') \<Rightarrow>
        (case c s' of (Inl e, s'') \<Rightarrow> (Inl e, s'') | (Inr u, s'') \<Rightarrow> (r, s'')))"

text \<open>
  What a handler does that a user or a collaborator can observe, in order: the calls of
  \<open>message.reply\<close>, of the wrapped command body, of the usage logger, of the AI backend,
  of \<open>delete\<close> on a sent message, and the pause between two segments.
\<close>

datatype event =
    Reply pystr
  | CallBody
  | SaveUsage pystr
  | GenerateContent pystr
  | Delete int
  | Sleep

text \<open>
  The state of the process: the state of everything outside it (the chat platform, the
  AI service, the usage store), of a type the code knows nothing about; the events so
  far; and the module's set \<open>active_gemini_requests\<close>.
\<close>

record 'p world =
  plat :: 'p
  trace :: "event list"
  active_gemini_requests :: "int set"

definition call :: "('p, 'a) prog \<Rightarrow> ('p world, 'a) prog" where
  "call f w = (case f (plat w) of (r, p') \<Rightarrow> (r, w\<lparr>plat := p'\<rparr>))"

definition log :: "event \<Rightarrow> ('p world, unit) prog" where
  "log ev w = (Inr (), w\<lparr>trace := trace w @ [ev]\<rparr>)"

text \<open>
  The collaborators, none of which is code of this repository: the platform client, the
  message's \<open>reply\<close> (it returns the identifier of the sent message), \<open>delete\<close> on a sent
  message, the target extractor, the usage logger, the construction of the AI client
  with its tool and configuration, and the completion call, whose \<open>text\<close> may be \<open>None\<close>.
  Each may change the outside state and may raise. The two configuration constants the
  handler reads, \<open>BOT_USERNAME\<close> and \<open>GEMINI_MODEL\<close> (through \<open>GEMINI_MODEL.title()\<close>), are
  fields as well.
\<close>

record 'p env =
  get_chat :: "int \<Rightarrow> ('p, chat) prog"
  get_chat_member :: "int \<Rightarrow> who \<Rightarrow> ('p, chat_member) prog"
  get_chat_administrators :: "int \<Rightarrow> ('p, chat_member list) prog"
  extract_user_and_reason :: "message \<Rightarrow> ('p, int option \<times> pystr) prog"
  message_reply :: "message \<Rightarrow> pystr \<Rightarrow> ('p, int) prog"
  message_delete :: "int \<Rightarrow> ('p, unit) prog"
  save_usage :: "chat \<Rightarrow> pystr \<Rightarrow> ('p, unit) prog"
  genai_setup :: "('p, unit) prog"
  generate_content :: "pystr \<Rightarrow> ('p, pystr option) prog"
  BOT_USERNAME :: pystr
  GEMINI_MODEL_title :: pystr

definition reply :: "'p env \<Rightarrow> message \<Rightarrow> pystr \<Rightarrow> ('p world, int) prog" where
  "reply env message text = bind_prog (log (Reply text)) (\<lambda>u. call (message_reply env message text))"

definition call_body :: "('p world, 'r) prog \<Rightarrow> ('p world, 'r option) prog" where
  "call_body func = bind_prog (log CallBody) (\<lambda>u. bind_prog func (\<lambda>r. ret (Some r)))"

text \<open>\<open>await message.reply(text); return\<close> in a wrapper: the notice is sent and the wrapper
  returns \<open>None\<close>.\<close>

definition reject :: "'p env \<Rightarrow> message \<Rightarrow> pystr \<Rightarrow> ('p world, 'r option) prog" where
  "reject env message text = bind_prog (reply env message text) (\<lambda>sent. ret None)"

text \<open>
  The text of the exception that reading the attribute \<open>name\<close> of \<open>None\<close> raises:
  \<open>'NoneType' object has no attribute 'name'\<close>, the apostrophe being code point 39.
\<close>

definition no_attribute :: "string \<Rightarrow> pystr" where
  "no_attribute name =
     [39] @ lit ''NoneType'' @ [39] @ lit '' object has no attribute '' @ [39] @ lit name @ [39]"

text \<open>\<open>message.from_user.id\<close>, which raises when there is no sending user.\<close>

definition from_user_id :: "message \<Rightarrow> ('s, int) prog" where
  "from_user_id message =
     (case from_user message of
        None \<Rightarrow> raise (AttributeError (no_attribute ''id''))
      | Some uid \<Rightarrow> ret uid)"

section \<open>utils/decorators.py\<close>

definition is_admin_status :: "ChatMemberStatus \<Rightarrow> bool" where
  "is_admin_status s = (s = OWNER \<or> s = ADMINISTRATOR)"

text \<open>The loop over the administrator list in \<open>check_admin_permissions\<close>.\<close>

fun find_admin :: "int \<Rightarrow> chat_member list \<Rightarrow> bool" where
  "find_admin uid [] = False"
| "find_admin uid (admin # admins) = (if user_id admin = uid then True else find_admin uid admins)"

text \<open>
  \<open>check_admin_permissions(client, chat_id, user_id)\<close>. It sends nothing, so it runs on
  the outside state alone. The calls of the logger are left out.
\<close>

definition check_bot :: "'p env \<Rightarrow> int \<Rightarrow> ('p, bool) prog" where
  "check_bot env cid =
     try_except
       (bind_prog (get_chat_member env cid Me) (\<lambda>bot_member.
          ret (is_admin_status (status bot_member))))
       (\<lambda>e. ret True)"

definition check_user :: "'p env \<Rightarrow> int \<Rightarrow> int \<Rightarrow> ('p, bool) prog" where
  "check_user env cid uid =
     try_except
       (bind_prog (get_chat_member env cid (User uid)) (\<lambda>member.
          ret (is_admin_status (status member))))
       (\<lambda>e. if is_UserAdminInvalid e then ret False
            else try_except
                   (bind_prog (get_chat_administrators env cid) (\<lambda>admins.
                      ret (find_admin uid admins)))
                   (\<lambda>e2. ret False))"

definition check_admin_permissions :: "'p env \<Rightarrow> int \<Rightarrow> int \<Rightarrow> ('p, bool) prog" where
  "check_admin_permissions env cid uid =
     try_except
       (bind_prog (get_chat env cid) (\<lambda>chat.
          if chat_type chat = PRIVATE then ret True
          else bind_prog (check_bot env cid) (\<lambda>bot_ok.
                 if \<not> bot_ok then ret False
                 else check_user env cid uid)))
       (\<lambda>e. ret False)"

text \<open>The notices of the gates.\<close>

definition msg_bot_not_admin :: pystr where
  "msg_bot_not_admin = cross_mark @ lit '' I need administrator permissions to execute admin commands.''"

definition msg_bot_unverified :: pystr where
  "msg_bot_unverified = cross_mark @ lit '' Unable to verify bot permissions.''"

definition msg_admins_only :: pystr where
  "msg_admins_only = cross_mark @ lit '' This command is only available to administrators.''"

definition msg_unexpected :: pystr where
  "msg_unexpected = cross_mark @ lit '' An unexpected error occurred.''"

definition msg_self_action :: pystr where
  "msg_self_action = cross_mark @ lit '' You cannot perform this action on yourself.''"

definition msg_target_admin :: pystr where
  "msg_target_admin = cross_mark @ lit '' You cannot use this command on an administrator.''"

definition msg_need_permission :: "pystr \<Rightarrow> pystr" where
  "msg_need_permission permission =
     cross_mark @ lit '' You need the `'' @ permission @ lit ''` permission to use this command.''"

definition msg_user_unverified :: pystr where
  "msg_user_unverified = cross_mark @ lit '' Unable to verify your permissions.''"

definition msg_check_failed :: pystr where
  "msg_check_failed = cross_mark @ lit '' An error occurred while checking permissions.''"

text \<open>
  The check of the bot's own status, written the same in \<open>admin_only\<close> (lines 79-87) and
  in \<open>require_permission\<close> (lines 151-159): the result says whether the wrapper goes on;
  when it is \<open>False\<close> the wrapper has replied and returns \<open>None\<close>.
\<close>

definition bot_gate :: "'p env \<Rightarrow> message \<Rightarrow> int \<Rightarrow> ('p world, bool) prog" where
  "bot_gate env message cid =
     try_except
       (bind_prog (call (get_chat_member env cid Me)) (\<lambda>bot_member.
          if \<not> is_admin_status (status bot_member)
          then bind_prog (reply env message msg_bot_not_admin) (\<lambda>sent. ret False)
          else ret True))
       (\<lambda>e. bind_prog (reply env message msg_bot_unverified) (\<lambda>sent. ret False))"

text \<open>
  \<open>admin_only(func)\<close>: the wrapper. It returns what the body returns, or \<open>None\<close>.
\<close>

definition admin_only ::
  "'p env \<Rightarrow> message \<Rightarrow> ('p world, 'r) prog \<Rightarrow> ('p world, 'r option) prog" where
  "admin_only env message func =
     try_except
       (bind_prog (call (get_chat env (chat_id (msg_chat message)))) (\<lambda>chat.
        bind_prog (if chat_type chat \<noteq> PRIVATE
                   then bot_gate env message (chat_id (msg_chat message))
                   else ret True) (\<lambda>go.
        if \<not> go then ret None
        else bind_prog (from_user_id message) (\<lambda>uid.
             bind_prog (call (check_admin_permissions env (chat_id (msg_chat message)) uid)) (\<lambda>is_admin.
             if \<not> is_admin
             then reject env message msg_admins_only
             else call_body func)))))
       (\<lambda>e. reject env message msg_unexpected)"

text \<open>
  \<open>protect_admins(func)\<close>: the wrapper. Nothing in it is inside a \<open>try\<close>. The extractor's
  target is \<open>None\<close> or a user, read here through its identifier.
\<close>

definition protect_admins ::
  "'p env \<Rightarrow> message \<Rightarrow> ('p world, 'r) prog \<Rightarrow> ('p world, 'r option) prog" where
  "protect_admins env message func =
     bind_prog (call (get_chat env (chat_id (msg_chat message)))) (\<lambda>chat.
     if chat_type chat = PRIVATE then call_body func
     else bind_prog (call (extract_user_and_reason env message)) (\<lambda>extracted.
          case fst extracted of
            None \<Rightarrow> call_body func
          | Some target_id \<Rightarrow>
              bind_prog (from_user_id message) (\<lambda>uid.
              if target_id = uid
              then reject env message msg_self_action
              else bind_prog (call (check_admin_permissions env (chat_id (msg_chat message)) target_id))
                     (\<lambda>is_target_admin.
                      if is_target_admin
                      then reject env message msg_target_admin
                      else call_body func))))"

text \<open>\<open>member.privileges and getattr(member.privileges, permission, False)\<close>\<close>

definition has_privilege :: "chat_member \<Rightarrow> pystr \<Rightarrow> bool" where
  "has_privilege member permission =
     (case privileges member of
        None \<Rightarrow> False
      | Some p \<Rightarrow> (case p permission of None \<Rightarrow> False | Some flag \<Rightarrow> flag))"

text \<open>The loop over the administrator list in \<open>require_permission\<close> (lines 184-193).\<close>

fun scan_admins ::
  "'p env \<Rightarrow> message \<Rightarrow> pystr \<Rightarrow> ('p world, 'r) prog \<Rightarrow> int \<Rightarrow> chat_member list
     \<Rightarrow> ('p world, 'r option) prog" where
  "scan_admins env message permission func uid [] =
     reject env message msg_admins_only"
| "scan_admins env message permission func uid (admin # admins) =
     (if user_id admin = uid
      then (if status admin = OWNER then call_body func
            else if has_privilege admin permission then call_body func
            else reject env message (msg_need_permission permission))
      else scan_admins env message permission func uid admins)"

text \<open>The check of the invoking user in \<open>require_permission\<close> (lines 162-196).\<close>

definition user_gate ::
  "pystr \<Rightarrow> 'p env \<Rightarrow> message \<Rightarrow> ('p world, 'r) prog \<Rightarrow> int \<Rightarrow> ('p world, 'r option) prog" where
  "user_gate permission env message func uid =
     try_except
       (bind_prog (call (get_chat_member env (chat_id (msg_chat message)) (User uid))) (\<lambda>member.
          if status member = OWNER then call_body func
          else if status member = ADMINISTRATOR
          then (if has_privilege member permission then call_body func
                else reject env message (msg_need_permission permission))
          else reject env message msg_admins_only))
       (\<lambda>e. if is_UserAdminInvalid e
            then reject env message msg_user_unverified
            else try_except
                   (bind_prog (call (get_chat_administrators env (chat_id (msg_chat message))))
                      (\<lambda>admins. scan_admins env message permission func uid admins))
                   (\<lambda>e2. reject env message msg_check_failed))"

text \<open>\<open>require_permission(permission)(func)\<close>: the wrapper.\<close>

definition require_permission ::
  "pystr \<Rightarrow> 'p env \<Rightarrow> message \<Rightarrow> ('p world, 'r) prog \<Rightarrow> ('p world, 'r option) prog" where
  "require_permission permission env message func =
     (if chat_type (msg_chat message) = PRIVATE then call_body func
      else bind_prog (bot_gate env message (chat_id (msg_chat message))) (\<lambda>go.
           if \<not> go then ret None
           else bind_prog (from_user_id message) (\<lambda>uid.
                user_gate permission env message func uid)))"

section \<open>handlers/ai/chat.py\<close>

text \<open>
  \<open>str.replace(old, new)\<close>: the occurrences of \<open>old\<close> are replaced from left to right,
  without overlap; for an empty \<open>old\<close>, \<open>new\<close> goes before every unit and at the end.
\<close>

fun replace_from :: "pystr \<Rightarrow> pystr \<Rightarrow> pystr \<Rightarrow> pystr" where
  "replace_from old new [] = []"
| "replace_from old new (c # cs) =
     (if take (length old) (c # cs) = old
      then new @ replace_from old new (drop (length old - 1) cs)
      else c # replace_from old new cs)"

definition py_replace :: "pystr \<Rightarrow> pystr \<Rightarrow> pystr \<Rightarrow> pystr" where
  "py_replace s old new =
     (if old = [] then new @ concat (map (\<lambda>c. c # new) s) else replace_from old new s)"

text \<open>\<open>str.strip()\<close> removes the units for which \<open>str.isspace\<close> holds from both ends.\<close>

definition isspace :: "nat \<Rightarrow> bool" where
  "isspace c = (c \<in> {9, 10, 11, 12, 13, 28, 29, 30, 31, 32, 133, 160, 5760, 8232, 8233, 8239, 8287, 12288}
                \<or> (8192 \<le> c \<and> c \<le> 8202))"

definition py_strip :: "pystr \<Rightarrow> pystr" where
  "py_strip s = rev (dropWhile isspace (rev (dropWhile isspace s)))"

text \<open>\<open>range(0, n, step)\<close> for a positive step, and the list of segments of line 84.\<close>

definition py_range :: "nat \<Rightarrow> nat \<Rightarrow> nat list" where
  "py_range n step = map (\<lambda>k. k * step) [0 ..< (n + step - 1) div step]"

definition parts_of :: "nat \<Rightarrow> pystr \<Rightarrow> pystr list" where
  "parts_of limit response_text =
     map (\<lambda>i. take limit (drop i response_text)) (py_range (length response_text) limit)"

text \<open>The notices of the handler.\<close>

definition msg_wait_previous :: pystr where
  "msg_wait_previous = lit ''Please wait for your previous Gemini request to finish before sending another.''"

definition msg_write_prompt :: pystr where
  "msg_write_prompt = lit ''Please write your prompt on the same message.''"

definition msg_wait_moment :: pystr where
  "msg_wait_moment = lit ''Wait a moment...''"

definition msg_answer :: "'p env \<Rightarrow> pystr \<Rightarrow> pystr" where
  "msg_answer env part = lit ''**'' @ GEMINI_MODEL_title env @ lit '':** '' @ part"

definition msg_failure :: "exn \<Rightarrow> pystr" where
  "msg_failure e = lit ''Sorry, an unexpected error had occured: '' @ str e"

text \<open>The loop of lines 85-87.\<close>

fun send_parts :: "'p env \<Rightarrow> message \<Rightarrow> pystr list \<Rightarrow> ('p world, unit) prog" where
  "send_parts env message [] = ret ()"
| "send_parts env message (part # parts) =
     bind_prog (reply env message (msg_answer env part)) (\<lambda>sent.
     bind_prog (log Sleep) (\<lambda>u. send_parts env message parts))"

text \<open>Lines 81-89: the relay of the response, whose \<open>text\<close> may be \<open>None\<close>.\<close>

definition send_response :: "'p env \<Rightarrow> message \<Rightarrow> pystr option \<Rightarrow> ('p world, unit) prog" where
  "send_response env message response_text =
     (case response_text of
        None \<Rightarrow> raise (TypeError (lit ''object of type '' @ [39] @ lit ''NoneType'' @ [39]
                                  @ lit '' has no len()''))
      | Some t \<Rightarrow>
          if length t > 4000 then send_parts env message (parts_of 4000 t)
          else bind_prog (reply env message (msg_answer env t)) (\<lambda>sent. ret ()))"

text \<open>Line 38: the prompt; \<open>message.text\<close> may be \<open>None\<close>.\<close>

definition prompt_of :: "'p env \<Rightarrow> message \<Rightarrow> ('s, pystr) prog" where
  "prompt_of env message =
     (case msg_text message of
        None \<Rightarrow> raise (AttributeError (no_attribute ''replace''))
      | Some t \<Rightarrow>
          ret (py_strip (py_replace (py_replace t (lit ''/gemini'') [])
                                    (lit ''@'' @ BOT_USERNAME env) [])))"

definition add_active :: "int \<Rightarrow> ('p world, unit) prog" where
  "add_active cid w = (Inr (), w\<lparr>active_gemini_requests := insert cid (active_gemini_requests w)\<rparr>)"

definition discard_active :: "int \<Rightarrow> ('p world, unit) prog" where
  "discard_active cid w = (Inr (), w\<lparr>active_gemini_requests := active_gemini_requests w - {cid}\<rparr>)"

text \<open>Lines 37-96: the \<open>try\<close> statement of the handler.\<close>

definition gemini_try :: "'p env \<Rightarrow> message \<Rightarrow> ('p world, unit) prog" where
  "gemini_try env message =
     try_finally
       (try_except
          (bind_prog (prompt_of env message) (\<lambda>prompt.
             if prompt = []
             then bind_prog (reply env message msg_write_prompt) (\<lambda>sent.
                  discard_active (chat_id (msg_chat message)))
             else bind_prog (reply env message msg_wait_moment) (\<lambda>waiting_msg.
                  bind_prog (call (genai_setup env)) (\<lambda>u.
                  bind_prog (log (GenerateContent prompt)) (\<lambda>u.
                  bind_prog (call (generate_content env prompt)) (\<lambda>response_text.
                  bind_prog (send_response env message response_text) (\<lambda>u.
                  bind_prog (log (Delete waiting_msg)) (\<lambda>u.
                  call (message_delete env waiting_msg)))))))))
          (\<lambda>e. bind_prog (reply env message (msg_failure e)) (\<lambda>sent. ret ())))
       (discard_active (chat_id (msg_chat message)))"

text \<open>\<open>gemini_command(client, message)\<close>\<close>

definition gemini_command :: "'p env \<Rightarrow> message \<Rightarrow> ('p world, unit) prog" where
  "gemini_command env message w =
     (if chat_id (msg_chat message) \<in> active_gemini_requests w
      then bind_prog (reply env message msg_wait_previous) (\<lambda>sent. ret ()) w
      else bind_prog (add_active (chat_id (msg_chat message))) (\<lambda>u.
           bind_prog (log (SaveUsage (lit ''gemini''))) (\<lambda>u.
           bind_prog (call (save_usage env (msg_chat message) (lit ''gemini''))) (\<lambda>u.
           gemini_try env message))) w)"

section \<open>An example chat\<close>

text \<open>
  A supergroup in which the bot is an administrator, user 1 the owner, user 2 an
  administrator holding \<open>can_restrict_members\<close>, user 3 an administrator holding no
  privilege, and everybody else a plain member. The outside state counts the
  enumerations of the administrator list. Every collaborator succeeds; the examples
  below replace single collaborators by failing ones.
\<close>

definition the_owner :: chat_member where
  "the_owner = \<lparr>user_id = 1, status = OWNER, privileges = None\<rparr>"

definition the_moderator :: chat_member where
  "the_moderator =
     \<lparr>user_id = 2, status = ADMINISTRATOR,
      privileges = Some [lit ''can_restrict_members'' \<mapsto> True]\<rparr>"

definition the_helper :: chat_member where
  "the_helper = \<lparr>user_id = 3, status = ADMINISTRATOR, privileges = Some Map.empty\<rparr>"

definition the_bot :: chat_member where
  "the_bot = \<lparr>user_id = 0, status = ADMINISTRATOR, privileges = None\<rparr>"

definition member_of_group :: "who \<Rightarrow> chat_member" where
  "member_of_group u =
     (case u of
        Me \<Rightarrow> the_bot
      | User uid \<Rightarrow>
          if uid = 1 then the_owner
          else if uid = 2 then the_moderator
          else if uid = 3 then the_helper
          else \<lparr>user_id = uid, status = MEMBER, privileges = None\<rparr>)"

definition group_env :: "nat env" where
  "group_env =
     \<lparr>get_chat = (\<lambda>cid. ret \<lparr>chat_id = cid, chat_type = SUPERGROUP\<rparr>),
      get_chat_member = (\<lambda>cid u. ret (member_of_group u)),
      get_chat_administrators = (\<lambda>cid n. (Inr [the_owner, the_moderator, the_helper], Suc n)),
      extract_user_and_reason = (\<lambda>message. ret (None, [])),
      message_reply = (\<lambda>message text. ret 100),
      message_delete = (\<lambda>sent. ret ()),
      save_usage = (\<lambda>chat feature. ret ()),
      genai_setup = ret (),
      generate_content = (\<lambda>prompt. ret (Some prompt)),
      BOT_USERNAME = lit ''ShinBot'',
      GEMINI_MODEL_title = lit ''Gemini''\<rparr>"

definition group_message :: "int \<Rightarrow> message" where
  "group_message uid =
     \<lparr>msg_chat = \<lparr>chat_id = 7, chat_type = SUPERGROUP\<rparr>,
      from_user = Some uid,
      msg_text = Some (lit ''/ban'')\<rparr>"

definition start :: "nat world" where
  "start = \<lparr>plat = 0, trace = [], active_gemini_requests = {}\<rparr>"

definition timeout :: exn where
  "timeout = Exception (lit ''timed out'')"

text \<open>
  The same chat with one collaborator changed: the bot demoted to a plain member; the
  lookup of a user timing out; the lookup of a user refused with \<open>UserAdminInvalid\<close>;
  the fetch of the chat timing out; a command that names a target; the lookup of a user
  and the enumeration of the administrators both timing out; the usage store failing; an
  answer of 8001 units.
\<close>

definition bot_demoted_env :: "nat env" where
  "bot_demoted_env =
     group_env\<lparr>get_chat_member :=
       \<lambda>cid u. ret (case u of Me \<Rightarrow> the_bot\<lparr>status := MEMBER\<rparr> | User uid \<Rightarrow> member_of_group u)\<rparr>"

definition flaky_lookup_env :: "nat env" where
  "flaky_lookup_env =
     group_env\<lparr>get_chat_member :=
       \<lambda>cid u. case u of Me \<Rightarrow> ret the_bot | User uid \<Rightarrow> raise timeout\<rparr>"

definition invalid_user_env :: "nat env" where
  "invalid_user_env =
     group_env\<lparr>get_chat_member :=
       \<lambda>cid u. case u of Me \<Rightarrow> ret the_bot
                | User uid \<Rightarrow> raise (UserAdminInvalid (lit ''USER_ADMIN_INVALID''))\<rparr>"

definition chat_down_env :: "nat env" where
  "chat_down_env = group_env\<lparr>get_chat := \<lambda>cid. raise timeout\<rparr>"

definition target_env :: "int \<Rightarrow> nat env" where
  "target_env target_id =
     group_env\<lparr>extract_user_and_reason := \<lambda>message. ret (Some target_id, lit ''spam'')\<rparr>"

definition lookups_down_env :: "nat env" where
  "lookups_down_env = flaky_lookup_env\<lparr>get_chat_administrators := \<lambda>cid. raise timeout\<rparr>"

definition usage_down_env :: "nat env" where
  "usage_down_env = group_env\<lparr>save_usage := \<lambda>chat feature. raise (Exception (lit ''database is locked''))\<rparr>"

definition long_answer_env :: "nat env" where
  "long_answer_env = group_env\<lparr>generate_content := \<lambda>prompt. ret (Some (replicate 8001 97))\<rparr>"


definition marking_body :: "(nat world, unit) prog" where
  "marking_body w = (Inr (), w\<lparr>plat := plat w + 10\<rparr>)"

text \<open>
  A request to the AI relay in that chat.
\<close>

definition ask :: message where
  "ask = \<lparr>msg_chat = \<lparr>chat_id = 7, chat_type = SUPERGROUP\<rparr>,
           from_user = Some 5,
           msg_text = Some (lit ''/gemini hi'')\<rparr>"

section \<open>What the properties speak of\<close>

text \<open>
  Every \<open>message.reply\<close> on the message is delivered; every \<open>delete\<close> of a sent message
  is carried out.
\<close>

definition replies_sent :: "'p env \<Rightarrow> message \<Rightarrow> bool" where
  "replies_sent env message = (\<forall>text p. \<exists>sent p'. message_reply env message text p = (Inr sent, p'))"

definition deletes_done :: "'p env \<Rightarrow> bool" where
  "deletes_done env = (\<forall>sent p. \<exists>p'. message_delete env sent p = (Inr (), p'))"

text \<open>
  The events by which a response text is relayed: one reply, or one reply and one pause
  for each segment.
\<close>

definition answer_events :: "'p env \<Rightarrow> pystr \<Rightarrow> event list" where
  "answer_events env t =
     (if length t > 4000
      then concat (map (\<lambda>part. [Reply (msg_answer env part), Sleep]) (parts_of 4000 t))
      else [Reply (msg_answer env t)])"


section \<open>Unfolding the examples and the combinators\<close>

lemmas example_defs =
  group_env_def group_message_def start_def the_owner_def the_moderator_def the_helper_def
  the_bot_def member_of_group_def timeout_def

lemmas prog_defs =
  ret_def raise_def bind_prog_def try_except_def call_def log_def reply_def reject_def
  call_body_def from_user_id_def

lemma try_except_Inl: "m s = (Inl e, s') \<Longrightarrow> try_except m h s = h e s'"
  by (simp add: try_except_def)

lemma try_except_returns:
  assumes "\<And>e s. \<exists>a s'. h e s = (Inr a, s')"
  shows "\<exists>a s'. try_except m h s = (Inr a, s')"
proof (cases "m s")
  case (Pair r s1)
  then show ?thesis using assms [of _ s1]
    by (cases r) (auto simp: try_except_def)
qed

lemma bind_prog_returns:
  assumes "\<exists>a s'. m s = (Inr a, s')" and "\<And>a s. \<exists>b s'. f a s = (Inr b, s')"
  shows "\<exists>b s'. bind_prog m f s = (Inr b, s')"
  using assms by (auto simp: bind_prog_def)

section \<open>The permission resolver\<close>

lemma check_bot_returns: "\<exists>b p'. check_bot env cid p = (Inr b, p')"
  by (auto simp: check_bot_def try_except_def bind_prog_def ret_def split: prod.splits sum.splits)

lemma check_user_returns: "\<exists>b p'. check_user env cid uid p = (Inr b, p')"
  by (auto simp: check_user_def try_except_def bind_prog_def ret_def split: prod.splits sum.splits)

text \<open>
  C9. \<open>check_admin_permissions\<close> never raises: whatever the platform calls do, in whatever
  state, it returns a truth value; and when the first call, the fetch of the chat, fails,
  that value is \<open>False\<close>.
\<close>

theorem check_admin_permissions_never_raises:
  "(\<exists>b p'. check_admin_permissions env cid uid p = (Inr b, p')) \<and>
   (\<forall>e p'. get_chat env cid p = (Inl e, p') \<longrightarrow>
      check_admin_permissions env cid uid p = (Inr False, p'))"
proof
  show "\<exists>b p'. check_admin_permissions env cid uid p = (Inr b, p')"
  proof (cases "get_chat env cid p")
    case (Pair r p1)
    show ?thesis
    proof (cases r)
      case (Inl e)
      with Pair show ?thesis
        by (auto simp: check_admin_permissions_def try_except_def bind_prog_def ret_def)
    next
      case (Inr c)
      obtain b p2 where b: "check_bot env cid p1 = (Inr b, p2)"
        using check_bot_returns [of env cid p1] by auto
      obtain b' p3 where u: "check_user env cid uid p2 = (Inr b', p3)"
        using check_user_returns [of env cid uid p2] by auto
      from Pair Inr b u show ?thesis
        by (auto simp: check_admin_permissions_def try_except_def bind_prog_def ret_def)
    qed
  qed
next
  show "\<forall>e p'. get_chat env cid p = (Inl e, p') \<longrightarrow>
      check_admin_permissions env cid uid p = (Inr False, p')"
    by (simp add: check_admin_permissions_def try_except_def bind_prog_def ret_def)
qed

theorem check_admin_permissions_never_raises_witness:
  "get_chat chat_down_env 7 0 = (Inl timeout, 0) \<and>
   check_admin_permissions chat_down_env 7 1 0 = (Inr False, 0)"
  using check_admin_permissions_never_raises [of chat_down_env 7 1 0]
  by (simp add: chat_down_env_def raise_def)

lemma find_admin_iff: "find_admin uid admins = (uid \<in> user_id ` set admins)"
  by (induction admins) auto

lemma check_bot_passes:
  assumes "get_chat_member env cid Me p1 = (rb, p2)"
    and "case rb of Inl e \<Rightarrow> True | Inr bot_member \<Rightarrow> is_admin_status (status bot_member)"
  shows "check_bot env cid p1 = (Inr True, p2)"
  using assms by (cases rb) (simp_all add: check_bot_def try_except_def bind_prog_def ret_def)

lemma check_user_direct:
  assumes "get_chat_member env cid (User uid) p2 = (Inr member, p3)"
  shows "check_user env cid uid p2 = (Inr (is_admin_status (status member)), p3)"
  using assms by (simp add: check_user_def try_except_def bind_prog_def ret_def)

lemma check_user_fallback:
  assumes "get_chat_member env cid (User uid) p2 = (Inl e, p3)" and "\<not> is_UserAdminInvalid e"
    and "get_chat_administrators env cid p3 = (Inr admins, p4)"
  shows "check_user env cid uid p2 = (Inr (find_admin uid admins), p4)"
  using assms by (simp add: check_user_def try_except_def bind_prog_def ret_def)

lemma check_admin_permissions_group:
  assumes "get_chat env cid p = (Inr chat, p1)" and "chat_type chat \<noteq> PRIVATE"
    and "check_bot env cid p1 = (Inr True, p2)"
  shows "check_admin_permissions env cid uid p = check_user env cid uid p2"
proof -
  obtain b p3 where u: "check_user env cid uid p2 = (Inr b, p3)"
    using check_user_returns [of env cid uid p2] by auto
  with assms show ?thesis
    by (simp add: check_admin_permissions_def try_except_def bind_prog_def ret_def)
qed

lemma check_user_invalid:
  assumes "get_chat_member env cid (User uid) p2 = (Inl (UserAdminInvalid d), p3)"
  shows "check_user env cid uid p2 = (Inr False, p3)"
  using assms by (simp add: check_user_def try_except_def bind_prog_def ret_def)

lemma check_user_fallback_failed:
  assumes "get_chat_member env cid (User uid) p2 = (Inl e, p3)" and "\<not> is_UserAdminInvalid e"
    and "get_chat_administrators env cid p3 = (Inl e2, p4)"
  shows "check_user env cid uid p2 = (Inr False, p4)"
  using assms by (simp add: check_user_def try_except_def bind_prog_def ret_def)

lemma not_UserAdminInvalid: "(\<forall>d. e \<noteq> UserAdminInvalid d) = (\<not> is_UserAdminInvalid e)"
  by (cases e) simp_all

lemma check_bot_stops:
  assumes "get_chat_member env cid Me p1 = (Inr bot_member, p2)"
    and "status bot_member \<noteq> OWNER" and "status bot_member \<noteq> ADMINISTRATOR"
  shows "check_bot env cid p1 = (Inr False, p2)"
  using assms by (simp add: check_bot_def try_except_def bind_prog_def ret_def is_admin_status_def)

lemma check_admin_permissions_bot_stops:
  assumes "get_chat env cid p = (Inr chat, p1)" and "chat_type chat \<noteq> PRIVATE"
    and "check_bot env cid p1 = (Inr False, p2)"
  shows "check_admin_permissions env cid uid p = (Inr False, p2)"
  using assms by (simp add: check_admin_permissions_def try_except_def bind_prog_def ret_def)

text \<open>
  C3, as the code has it. In a chat that is not private the resolver first asks for the
  bot's own status. When that status is reported and is neither owner nor administrator,
  the result is \<open>False\<close> for every user. When the lookup of the bot fails, or reports owner
  or administrator:
  \<^item> through the direct lookup, when it succeeds, the result is \<open>True\<close> for the statuses
    owner and administrator and \<open>False\<close> for every other status;
  \<^item> when the direct lookup fails with \<open>UserAdminInvalid\<close>, the result is \<open>False\<close>;
  \<^item> through the fallback, taken when the direct lookup fails with any other error, the
    result is \<open>True\<close> when the enumeration of the administrators succeeds and the user's
    identifier occurs in the enumerated list, and \<open>False\<close> otherwise: when the identifier
    does not occur, and when the enumeration itself fails.
\<close>

theorem check_admin_permissions_paths:
  assumes "get_chat env cid p = (Inr chat, p1)" and "chat_type chat \<noteq> PRIVATE"
    and "get_chat_member env cid Me p1 = (rb, p2)"
  shows "(\<forall>bot_member.
            rb = Inr bot_member \<and> status bot_member \<noteq> OWNER \<and> status bot_member \<noteq> ADMINISTRATOR \<longrightarrow>
            check_admin_permissions env cid uid p = (Inr False, p2)) \<and>
         ((\<exists>e. rb = Inl e) \<or>
          (\<exists>bot_member. rb = Inr bot_member \<and>
             (status bot_member = OWNER \<or> status bot_member = ADMINISTRATOR)) \<longrightarrow>
            (\<forall>member p3. get_chat_member env cid (User uid) p2 = (Inr member, p3) \<longrightarrow>
               check_admin_permissions env cid uid p =
                 (Inr (status member = OWNER \<or> status member = ADMINISTRATOR), p3)) \<and>
            (\<forall>d p3. get_chat_member env cid (User uid) p2 = (Inl (UserAdminInvalid d), p3) \<longrightarrow>
               check_admin_permissions env cid uid p = (Inr False, p3)) \<and>
            (\<forall>e p3 admins p4.
               get_chat_member env cid (User uid) p2 = (Inl e, p3) \<and> (\<forall>d. e \<noteq> UserAdminInvalid d) \<and>
               get_chat_administrators env cid p3 = (Inr admins, p4) \<longrightarrow>
               check_admin_permissions env cid uid p = (Inr (uid \<in> user_id ` set admins), p4)) \<and>
            (\<forall>e p3 e2 p4.
               get_chat_member env cid (User uid) p2 = (Inl e, p3) \<and> (\<forall>d. e \<noteq> UserAdminInvalid d) \<and>
               get_chat_administrators env cid p3 = (Inl e2, p4) \<longrightarrow>
               check_admin_permissions env cid uid p = (Inr False, p4)))"
proof (intro conjI allI impI)
  fix bot_member
  assume "rb = Inr bot_member \<and> status bot_member \<noteq> OWNER \<and> status bot_member \<noteq> ADMINISTRATOR"
  then have "check_bot env cid p1 = (Inr False, p2)"
    using assms(3) by (intro check_bot_stops) auto
  then show "check_admin_permissions env cid uid p = (Inr False, p2)"
    using assms(1,2) by (intro check_admin_permissions_bot_stops)
next
  assume passes: "(\<exists>e. rb = Inl e) \<or>
          (\<exists>bot_member. rb = Inr bot_member \<and>
             (status bot_member = OWNER \<or> status bot_member = ADMINISTRATOR))"
  have bot_ok: "check_bot env cid p1 = (Inr True, p2)"
    using assms(3) passes by (intro check_bot_passes) (auto simp: is_admin_status_def)
  have eq: "check_admin_permissions env cid uid p = check_user env cid uid p2"
    using assms(1,2) bot_ok by (rule check_admin_permissions_group)
  {
    fix member p3
    assume "get_chat_member env cid (User uid) p2 = (Inr member, p3)"
    then show "check_admin_permissions env cid uid p =
                 (Inr (status member = OWNER \<or> status member = ADMINISTRATOR), p3)"
      by (simp add: eq check_user_direct is_admin_status_def)
  next
    fix d p3
    assume "get_chat_member env cid (User uid) p2 = (Inl (UserAdminInvalid d), p3)"
    then show "check_admin_permissions env cid uid p = (Inr False, p3)"
      by (simp add: eq check_user_invalid)
  next
    fix e p3 admins p4
    assume "get_chat_member env cid (User uid) p2 = (Inl e, p3) \<and> (\<forall>d. e \<noteq> UserAdminInvalid d) \<and>
            get_chat_administrators env cid p3 = (Inr admins, p4)"
    then show "check_admin_permissions env cid uid p = (Inr (uid \<in> user_id ` set admins), p4)"
      by (simp add: eq check_user_fallback find_admin_iff not_UserAdminInvalid)
  next
    fix e p3 e2 p4
    assume "get_chat_member env cid (User uid) p2 = (Inl e, p3) \<and> (\<forall>d. e \<noteq> UserAdminInvalid d) \<and>
            get_chat_administrators env cid p3 = (Inl e2, p4)"
    then show "check_admin_permissions env cid uid p = (Inr False, p4)"
      by (simp add: eq check_user_fallback_failed not_UserAdminInvalid)
  }
qed

text \<open>
  The claim without the condition on the bot fails: in the example chat with the bot
  demoted to a plain member, the direct lookup reports user 1 as the owner and the
  resolver answers \<open>False\<close>.
\<close>

theorem check_admin_permissions_bot_guard_counterexample:
  "get_chat bot_demoted_env 7 0 = (Inr \<lparr>chat_id = 7, chat_type = SUPERGROUP\<rparr>, 0) \<and>
   get_chat_member bot_demoted_env 7 (User 1) 0 = (Inr the_owner, 0) \<and>
   status the_owner = OWNER \<and>
   check_admin_permissions bot_demoted_env 7 1 0 = (Inr False, 0)"
  by (simp add: bot_demoted_env_def group_env_def member_of_group_def the_owner_def the_bot_def ret_def
      check_admin_permissions_def check_bot_def try_except_def bind_prog_def is_admin_status_def)

theorem check_admin_permissions_paths_witness:
  "check_admin_permissions bot_demoted_env 7 2 0 = (Inr False, 0) \<and>
   get_chat_member group_env 7 (User 2) 0 = (Inr the_moderator, 0) \<and>
   check_admin_permissions group_env 7 2 0 = (Inr True, 0) \<and>
   get_chat_member group_env 7 (User 5) 0 = (Inr (member_of_group (User 5)), 0) \<and>
   check_admin_permissions group_env 7 5 0 = (Inr False, 0) \<and>
   check_admin_permissions invalid_user_env 7 1 0 = (Inr False, 0) \<and>
   get_chat_member flaky_lookup_env 7 (User 3) 0 = (Inl timeout, 0) \<and>
   check_admin_permissions flaky_lookup_env 7 3 0 = (Inr True, 1) \<and>
   check_admin_permissions flaky_lookup_env 7 5 0 = (Inr False, 1) \<and>
   get_chat_administrators lookups_down_env 7 0 = (Inl timeout, 0) \<and>
   check_admin_permissions lookups_down_env 7 1 0 = (Inr False, 0)"
proof -
  have g: "get_chat group_env 7 0 = (Inr \<lparr>chat_id = 7, chat_type = SUPERGROUP\<rparr>, 0)"
    and gd: "get_chat bot_demoted_env 7 0 = (Inr \<lparr>chat_id = 7, chat_type = SUPERGROUP\<rparr>, 0)"
    and gi: "get_chat invalid_user_env 7 0 = (Inr \<lparr>chat_id = 7, chat_type = SUPERGROUP\<rparr>, 0)"
    and gf: "get_chat flaky_lookup_env 7 0 = (Inr \<lparr>chat_id = 7, chat_type = SUPERGROUP\<rparr>, 0)"
    and gl: "get_chat lookups_down_env 7 0 = (Inr \<lparr>chat_id = 7, chat_type = SUPERGROUP\<rparr>, 0)"
    by (simp_all add: bot_demoted_env_def invalid_user_env_def lookups_down_env_def
          flaky_lookup_env_def group_env_def ret_def)
  have b: "get_chat_member group_env 7 Me 0 = (Inr the_bot, 0)"
    and bd: "get_chat_member bot_demoted_env 7 Me 0 = (Inr (the_bot\<lparr>status := MEMBER\<rparr>), 0)"
    and bi: "get_chat_member invalid_user_env 7 Me 0 = (Inr the_bot, 0)"
    and bf: "get_chat_member flaky_lookup_env 7 Me 0 = (Inr the_bot, 0)"
    and bl: "get_chat_member lookups_down_env 7 Me 0 = (Inr the_bot, 0)"
    by (simp_all add: bot_demoted_env_def invalid_user_env_def lookups_down_env_def
          flaky_lookup_env_def group_env_def ret_def member_of_group_def)
  have np: "chat_type \<lparr>chat_id = 7, chat_type = SUPERGROUP\<rparr> \<noteq> PRIVATE"
    by simp
  show ?thesis
    using check_admin_permissions_paths [OF gd np bd, of 2]
      check_admin_permissions_paths [OF g np b, of 2]
      check_admin_permissions_paths [OF g np b, of 5]
      check_admin_permissions_paths [OF gi np bi, of 1]
      check_admin_permissions_paths [OF gf np bf, of 3]
      check_admin_permissions_paths [OF gf np bf, of 5]
      check_admin_permissions_paths [OF gl np bl, of 1]
    by (simp add: group_env_def flaky_lookup_env_def invalid_user_env_def lookups_down_env_def
        ret_def raise_def member_of_group_def the_bot_def
        the_moderator_def the_owner_def the_helper_def timeout_def)
qed

lemma group_env_admin [simp]:
  "check_admin_permissions group_env cid uid p = (Inr (uid = 1 \<or> uid = 2 \<or> uid = 3), p)"
  by (simp add: check_admin_permissions_def check_bot_def check_user_def is_admin_status_def
        example_defs prog_defs)

section \<open>What a delegation and a rejection are\<close>

text \<open>
  A delegation runs the body once, on the state reached so far with the call recorded;
  a rejection records and sends one notice and returns \<open>None\<close>.
\<close>

lemma call_body_returns:
  "func (w\<lparr>trace := trace w @ [CallBody]\<rparr>) = (Inr r, w') \<Longrightarrow> call_body func w = (Inr (Some r), w')"
  by (simp add: call_body_def bind_prog_def log_def ret_def)

lemma call_body_raises:
  "func (w\<lparr>trace := trace w @ [CallBody]\<rparr>) = (Inl e, w') \<Longrightarrow> call_body func w = (Inl e, w')"
  by (simp add: call_body_def bind_prog_def log_def)

lemma reject_sent:
  "message_reply env message text (plat w) = (Inr sent, p') \<Longrightarrow>
   reject env message text w = (Inr None, w\<lparr>plat := p', trace := trace w @ [Reply text]\<rparr>)"
  by (simp add: reject_def reply_def bind_prog_def log_def call_def ret_def)

lemma bot_gate_passes:
  assumes "get_chat_member env cid Me (plat w) = (Inr bot_member, p1)"
    and "status bot_member = OWNER \<or> status bot_member = ADMINISTRATOR"
  shows "bot_gate env message cid w = (Inr True, w\<lparr>plat := p1\<rparr>)"
  using assms
  by (auto simp: bot_gate_def try_except_def bind_prog_def call_def ret_def is_admin_status_def)

section \<open>protect_admins\<close>

text \<open>
  A delegation is one run of the body: its outcome is the outcome of the body on the
  state reached so far, with the call recorded.
\<close>

lemma call_body_once:
  "call_body func w =
     (case func (w\<lparr>trace := trace w @ [CallBody]\<rparr>) of
        (Inl e, w') \<Rightarrow> (Inl e, w')
      | (Inr r, w') \<Rightarrow> (Inr (Some r), w'))"
  by (simp add: call_body_def bind_prog_def log_def ret_def split: prod.splits sum.splits)

text \<open>
  For a message that has a sending user the wrapper decides as follows. In a chat that
  \<open>get_chat\<close> reports as not private, after the extraction has returned: with no target
  the wrapper is one delegation to the body; with a target that is the invoking user it
  is the rejection with the self-action notice, whatever the status of either; with
  another target it is the rejection with the admin-target notice when the resolver
  answers \<open>True\<close> for the target, and one delegation to the body when it answers \<open>False\<close>.
\<close>

lemma protect_admins_cases:
  assumes "get_chat env (chat_id (msg_chat message)) (plat w) = (Inr chat, p1)"
    and "chat_type chat \<noteq> PRIVATE"
    and "extract_user_and_reason env message p1 = (Inr (target_user, reason), p2)"
  shows "(target_user = None \<longrightarrow>
            protect_admins env message func w = call_body func (w\<lparr>plat := p2\<rparr>)) \<and>
         (\<forall>target_id uid. target_user = Some target_id \<and> from_user message = Some uid \<longrightarrow>
            (target_id = uid \<longrightarrow>
               protect_admins env message func w =
                 reject env message msg_self_action (w\<lparr>plat := p2\<rparr>)) \<and>
            (target_id \<noteq> uid \<longrightarrow>
               (\<forall>p3. check_admin_permissions env (chat_id (msg_chat message)) target_id p2 = (Inr True, p3) \<longrightarrow>
                  protect_admins env message func w =
                    reject env message msg_target_admin (w\<lparr>plat := p3\<rparr>)) \<and>
               (\<forall>p3. check_admin_permissions env (chat_id (msg_chat message)) target_id p2 = (Inr False, p3) \<longrightarrow>
                  protect_admins env message func w = call_body func (w\<lparr>plat := p3\<rparr>))))"
  using assms
  by (auto simp: protect_admins_def bind_prog_def call_def from_user_id_def ret_def)

text \<open>
  In the example chat, for the moderator, user 2, and a body that leaves its mark: no
  target, and the body runs once (the mark is 10); the moderator as target, and the
  self-action notice; the owner as target, and the admin-target notice; the plain member
  5 as target, and the body runs once.
\<close>

lemma protect_admins_cases_example:
  "protect_admins group_env (group_message 2) marking_body start
     = (Inr (Some ()), \<lparr>plat = 10, trace = [CallBody], active_gemini_requests = {}\<rparr>) \<and>
   protect_admins (target_env 2) (group_message 2) marking_body start
     = (Inr None, start\<lparr>trace := [Reply msg_self_action]\<rparr>) \<and>
   protect_admins (target_env 1) (group_message 2) marking_body start
     = (Inr None, start\<lparr>trace := [Reply msg_target_admin]\<rparr>) \<and>
   protect_admins (target_env 5) (group_message 2) marking_body start
     = (Inr (Some ()), \<lparr>plat = 10, trace = [CallBody], active_gemini_requests = {}\<rparr>)"
proof -
  have c: "get_chat group_env (chat_id (msg_chat (group_message 2))) (plat start)
             = (Inr \<lparr>chat_id = 7, chat_type = SUPERGROUP\<rparr>, 0)"
    by (simp add: example_defs ret_def)
  have c': "get_chat (target_env t) (chat_id (msg_chat (group_message 2))) (plat start)
             = (Inr \<lparr>chat_id = 7, chat_type = SUPERGROUP\<rparr>, 0)" for t
    by (simp add: target_env_def example_defs ret_def)
  have np: "chat_type \<lparr>chat_id = 7, chat_type = SUPERGROUP\<rparr> \<noteq> PRIVATE"
    by simp
  have x: "extract_user_and_reason group_env (group_message 2) 0 = (Inr (None, []), 0)"
    by (simp add: group_env_def ret_def)
  have x': "extract_user_and_reason (target_env t) (group_message 2) 0 = (Inr (Some t, lit ''spam''), 0)" for t
    by (simp add: target_env_def group_env_def ret_def)
  have a: "check_admin_permissions (target_env t) cid uid p = check_admin_permissions group_env cid uid p"
    for t cid uid p
    by (simp add: target_env_def check_admin_permissions_def check_bot_def check_user_def cong: if_cong)
  have r: "message_reply (target_env t) m body = ret 100" for t m body
    by (simp add: target_env_def group_env_def)
  show ?thesis
    using protect_admins_cases [OF c np x, where func = marking_body]
      protect_admins_cases [OF c' [of 2] np x' [of 2], where func = marking_body]
      protect_admins_cases [OF c' [of 1] np x' [of 1], where func = marking_body]
      protect_admins_cases [OF c' [of 5] np x' [of 5], where func = marking_body]
    by (simp add: a r marking_body_def group_message_def start_def prog_defs)
qed


section \<open>admin_only\<close>

text \<open>
  C10. When the chat is fetched, the bot's status (asked for in a chat that is not
  private) is owner or administrator, the resolver answers \<open>True\<close> for the invoking user
  and the body then raises, the wrapper is the rejection with the unexpected-error
  notice, sent after the call of the body: once that notice is delivered the wrapper
  returns \<open>None\<close>, and the exception of the body goes no further.
\<close>

theorem admin_only_catches_body:
  assumes "get_chat env (chat_id (msg_chat message)) (plat w) = (Inr chat, p1)"
    and "if chat_type chat = PRIVATE then p2 = p1
         else \<exists>bot_member. get_chat_member env (chat_id (msg_chat message)) Me p1 = (Inr bot_member, p2) \<and>
                (status bot_member = OWNER \<or> status bot_member = ADMINISTRATOR)"
    and "from_user message = Some uid"
    and "check_admin_permissions env (chat_id (msg_chat message)) uid p2 = (Inr True, p3)"
    and "func (w\<lparr>plat := p3, trace := trace w @ [CallBody]\<rparr>) = (Inl e, w')"
  shows "admin_only env message func w = reject env message msg_unexpected w' \<and>
         (\<forall>sent p4. message_reply env message msg_unexpected (plat w') = (Inr sent, p4) \<longrightarrow>
            admin_only env message func w =
              (Inr None, w'\<lparr>plat := p4, trace := trace w' @ [Reply msg_unexpected]\<rparr>))"
proof -
  have gate: "(if chat_type chat \<noteq> PRIVATE then bot_gate env message (chat_id (msg_chat message)) else ret True)
                (w\<lparr>plat := p1\<rparr>) = (Inr True, w\<lparr>plat := p2\<rparr>)"
    using assms(2) bot_gate_passes [of env "chat_id (msg_chat message)" "w\<lparr>plat := p1\<rparr>" _ p2 message]
    by (auto simp: ret_def split: if_splits)
  have body: "call_body func (w\<lparr>plat := p3\<rparr>) = (Inl e, w')"
    using assms(5) by (simp add: call_body_def bind_prog_def log_def)
  have chat: "call (get_chat env (chat_id (msg_chat message))) w = (Inr chat, w\<lparr>plat := p1\<rparr>)"
    using assms(1) by (simp add: call_def)
  have user: "from_user_id message (w\<lparr>plat := p2\<rparr>) = (Inr uid, w\<lparr>plat := p2\<rparr>)"
    using assms(3) by (simp add: from_user_id_def ret_def)
  have admin: "call (check_admin_permissions env (chat_id (msg_chat message)) uid) (w\<lparr>plat := p2\<rparr>)
                 = (Inr True, w\<lparr>plat := p3\<rparr>)"
    using assms(4) by (simp add: call_def)
  have caught: "admin_only env message func w = reject env message msg_unexpected w'"
    unfolding admin_only_def
    by (rule try_except_Inl) (simp add: bind_prog_def chat gate user admin body)
  show ?thesis
    by (simp add: caught reject_sent)
qed

theorem admin_only_catches_body_witness:
  "admin_only group_env (group_message 1) (raise timeout :: (nat world, unit) prog) start
     = (Inr None, start\<lparr>trace := [CallBody, Reply msg_unexpected]\<rparr>)"
proof -
  have c: "get_chat group_env (chat_id (msg_chat (group_message 1))) (plat start)
             = (Inr \<lparr>chat_id = 7, chat_type = SUPERGROUP\<rparr>, 0)"
    by (simp add: example_defs ret_def)
  have b: "if chat_type \<lparr>chat_id = 7, chat_type = SUPERGROUP\<rparr> = PRIVATE then (0::nat) = 0
           else \<exists>bot_member. get_chat_member group_env (chat_id (msg_chat (group_message 1))) Me 0
                                = (Inr bot_member, 0) \<and>
                  (status bot_member = OWNER \<or> status bot_member = ADMINISTRATOR)"
    by (simp add: example_defs ret_def)
  have fu: "from_user (group_message 1) = Some 1"
    by (simp add: group_message_def)
  have a: "check_admin_permissions group_env (chat_id (msg_chat (group_message 1))) 1 0 = (Inr True, 0)"
    by simp
  have f: "(raise timeout :: (nat world, unit) prog) (start\<lparr>plat := 0, trace := trace start @ [CallBody]\<rparr>)
             = (Inl timeout, start\<lparr>trace := [CallBody]\<rparr>)"
    by (simp add: raise_def start_def)
  show ?thesis
    using admin_only_catches_body
            [where func = "raise timeout" and w = start and message = "group_message 1"
               and env = group_env, OF c b fu a f]
    by (simp add: example_defs prog_defs)
qed

section \<open>require_permission\<close>

lemma scan_admins_find:
  "scan_admins env message permission func uid admins =
     (case find (\<lambda>admin. user_id admin = uid) admins of
        None \<Rightarrow> reject env message msg_admins_only
      | Some admin \<Rightarrow>
          if status admin = OWNER \<or> has_privilege admin permission then call_body func
          else reject env message (msg_need_permission permission))"
  by (induction admins) auto

lemma require_permission_user_gate:
  assumes "chat_type (msg_chat message) \<noteq> PRIVATE"
    and "get_chat_member env (chat_id (msg_chat message)) Me (plat w) = (Inr bot_member, p1)"
    and "status bot_member = OWNER \<or> status bot_member = ADMINISTRATOR"
    and "from_user message = Some uid"
  shows "require_permission permission env message func w =
           user_gate permission env message func uid (w\<lparr>plat := p1\<rparr>)"
  using assms(1,4) bot_gate_passes [OF assms(2,3), of message]
  by (simp add: require_permission_def bind_prog_def from_user_id_def ret_def)

lemma require_permission_direct_cases:
  assumes "chat_type (msg_chat message) \<noteq> PRIVATE"
    and "get_chat_member env (chat_id (msg_chat message)) Me (plat w) = (Inr bot_member, p1)"
    and "status bot_member = OWNER \<or> status bot_member = ADMINISTRATOR"
    and "from_user message = Some uid"
    and "get_chat_member env (chat_id (msg_chat message)) (User uid) p1 = (Inr member, p2)"
  shows "(status member = OWNER \<or> status member = ADMINISTRATOR \<and> has_privilege member permission \<longrightarrow>
            (\<forall>r w'. func (w\<lparr>plat := p2, trace := trace w @ [CallBody]\<rparr>) = (Inr r, w') \<longrightarrow>
               require_permission permission env message func w = (Inr (Some r), w'))) \<and>
         (status member = ADMINISTRATOR \<and> \<not> has_privilege member permission \<longrightarrow>
            (\<forall>sent p3. message_reply env message (msg_need_permission permission) p2 = (Inr sent, p3) \<longrightarrow>
               require_permission permission env message func w =
                 (Inr None, w\<lparr>plat := p3, trace := trace w @ [Reply (msg_need_permission permission)]\<rparr>))) \<and>
         (status member \<noteq> OWNER \<and> status member \<noteq> ADMINISTRATOR \<longrightarrow>
            (\<forall>sent p3. message_reply env message msg_admins_only p2 = (Inr sent, p3) \<longrightarrow>
               require_permission permission env message func w =
                 (Inr None, w\<lparr>plat := p3, trace := trace w @ [Reply msg_admins_only]\<rparr>)))"
proof -
  have member: "call (get_chat_member env (chat_id (msg_chat message)) (User uid)) (w\<lparr>plat := p1\<rparr>)
                  = (Inr member, w\<lparr>plat := p2\<rparr>)"
    using assms(5) by (simp add: call_def)
  show ?thesis
    unfolding require_permission_user_gate [OF assms(1-4)] user_gate_def
    by (auto simp: try_except_def bind_prog_def member call_body_returns reject_sent)
qed

lemma has_privilege_iff:
  "has_privilege member permission =
     (\<exists>flags. privileges member = Some flags \<and> flags permission = Some True)"
  by (auto simp: has_privilege_def split: option.splits)

lemma msg_need_permission_text:
  "msg_need_permission permission =
     [10060] @ lit '' You need the `'' @ permission @ lit ''` permission to use this command.''"
  by (simp add: msg_need_permission_def cross_mark_def)

lemma msg_admins_only_text:
  "msg_admins_only = [10060] @ lit '' This command is only available to administrators.''"
  by (simp add: msg_admins_only_def cross_mark_def)

text \<open>
  C6. In a chat that is not private the direct lookup of the invoking user is made only
  after the lookup of the bot's own status has reported owner or administrator. When it
  is made and succeeds:
  \<^item> for an owner the wrapper runs the body, on the state reached by the two lookups, and
    returns what the body returns;
  \<^item> for an administrator whose privileges exist and hold the flag named \<open>permission\<close>
    with a true value, the same;
  \<^item> for an administrator whose privileges are \<open>None\<close>, or lack the flag, or hold it
    with a false value, the wrapper sends the notice that quotes \<open>permission\<close> between
    backquotes and, the notice delivered, returns \<open>None\<close> with the body never run;
  \<^item> for every other status it sends the administrators-only notice in the same way.
\<close>

theorem require_permission_direct:
  assumes "chat_type (msg_chat message) \<noteq> PRIVATE"
    and "get_chat_member env (chat_id (msg_chat message)) Me (plat w) = (Inr bot_member, p1)"
    and "status bot_member = OWNER \<or> status bot_member = ADMINISTRATOR"
    and "from_user message = Some uid"
    and "get_chat_member env (chat_id (msg_chat message)) (User uid) p1 = (Inr member, p2)"
  shows "(status member = OWNER \<or>
          status member = ADMINISTRATOR \<and>
            (\<exists>flags. privileges member = Some flags \<and> flags permission = Some True) \<longrightarrow>
            (\<forall>r w'. func (w\<lparr>plat := p2, trace := trace w @ [CallBody]\<rparr>) = (Inr r, w') \<longrightarrow>
               require_permission permission env message func w = (Inr (Some r), w'))) \<and>
         (status member = ADMINISTRATOR \<and>
            \<not> (\<exists>flags. privileges member = Some flags \<and> flags permission = Some True) \<longrightarrow>
            (\<forall>sent p3.
               message_reply env message
                 ([10060] @ lit '' You need the `'' @ permission
                    @ lit ''` permission to use this command.'') p2 = (Inr sent, p3) \<longrightarrow>
               require_permission permission env message func w =
                 (Inr None,
                  w\<lparr>plat := p3,
                    trace := trace w @
                      [Reply ([10060] @ lit '' You need the `'' @ permission
                                @ lit ''` permission to use this command.'')]\<rparr>))) \<and>
         (status member \<noteq> OWNER \<and> status member \<noteq> ADMINISTRATOR \<longrightarrow>
            (\<forall>sent p3.
               message_reply env message
                 ([10060] @ lit '' This command is only available to administrators.'') p2
                 = (Inr sent, p3) \<longrightarrow>
               require_permission permission env message func w =
                 (Inr None,
                  w\<lparr>plat := p3,
                    trace := trace w @
                      [Reply ([10060] @ lit '' This command is only available to administrators.'')]\<rparr>)))"
  using require_permission_direct_cases [OF assms, of permission func]
  unfolding has_privilege_iff msg_need_permission_text msg_admins_only_text
  by simp

text \<open>
  In the example chat the permission is \<open>can_restrict_members\<close> and the body leaves its
  mark: the moderator, user 2, who holds the flag, has the body run once (the mark
  is 10); the helper, user 3, who does not, is told which permission is needed; the plain
  member, user 5, is told that the command is for administrators.
\<close>

theorem require_permission_direct_witness:
  "require_permission (lit ''can_restrict_members'') group_env (group_message 2) marking_body start
     = (Inr (Some ()), \<lparr>plat = 10, trace = [CallBody], active_gemini_requests = {}\<rparr>) \<and>
   require_permission (lit ''can_restrict_members'') group_env (group_message 3) marking_body start
     = (Inr None,
        \<lparr>plat = 0,
         trace = [Reply ([10060] @ lit '' You need the `can_restrict_members` permission to use this command.'')],
         active_gemini_requests = {}\<rparr>) \<and>
   require_permission (lit ''can_restrict_members'') group_env (group_message 5) marking_body start
     = (Inr None,
        \<lparr>plat = 0,
         trace = [Reply ([10060] @ lit '' This command is only available to administrators.'')],
         active_gemini_requests = {}\<rparr>)"
proof -
  have np: "chat_type (msg_chat (group_message uid)) \<noteq> PRIVATE" for uid
    by (simp add: group_message_def)
  have b: "get_chat_member group_env (chat_id (msg_chat (group_message uid))) Me (plat start)
             = (Inr the_bot, 0)" for uid
    by (simp add: example_defs ret_def)
  have bs: "status the_bot = OWNER \<or> status the_bot = ADMINISTRATOR"
    by (simp add: the_bot_def)
  have fu: "from_user (group_message uid) = Some uid" for uid
    by (simp add: group_message_def)
  have m: "get_chat_member group_env (chat_id (msg_chat (group_message uid))) (User uid) 0
             = (Inr (member_of_group (User uid)), 0)" for uid
    by (simp add: group_env_def ret_def)
  have r: "message_reply group_env m body = ret 100" for m body
    by (simp add: group_env_def)
  have quoted: "lit '' You need the `'' @ lit ''can_restrict_members''
                  @ lit ''` permission to use this command.''
                = lit '' You need the `can_restrict_members` permission to use this command.''"
    by (simp add: lit_def)
  show ?thesis
    using require_permission_direct [OF np [of 2] b [of 2] bs fu [of 2] m [of 2],
        where permission = "lit ''can_restrict_members''" and func = marking_body]
      require_permission_direct [OF np [of 3] b [of 3] bs fu [of 3] m [of 3],
        where permission = "lit ''can_restrict_members''" and func = marking_body]
      require_permission_direct [OF np [of 5] b [of 5] bs fu [of 5] m [of 5],
        where permission = "lit ''can_restrict_members''" and func = marking_body]
    by (simp add: r quoted marking_body_def member_of_group_def the_owner_def the_moderator_def
          the_helper_def start_def ret_def)
qed

text \<open>
  Before that lookup stands the check of the bot: in the example chat with the bot
  demoted, the wrapper answers the owner, user 1, with the notice about the bot's
  permissions and looks nobody up.
\<close>

lemma require_permission_bot_guard:
  "require_permission (lit ''can_restrict_members'') bot_demoted_env (group_message 1)
       (ret () :: (nat world, unit) prog) start
     = (Inr None, start\<lparr>trace := [Reply msg_bot_not_admin]\<rparr>)"
  by (simp add: require_permission_def bot_gate_def is_admin_status_def bot_demoted_env_def
        example_defs prog_defs)

text \<open>
  C7, as the code has it. In a chat that is not private, after the check of the bot has
  passed, when the direct lookup of the invoking user fails: on \<open>UserAdminInvalid\<close> the
  wrapper is the rejection with the notice that the permissions cannot be verified, and
  the administrators are not enumerated; on any other error the administrators are
  enumerated, and the first entry with the user's identifier decides: an owner, or an entry
  whose privileges hold the named flag, has the body run; any other entry gets the notice
  that names the permission; no entry gets the administrators-only notice. When the
  enumeration itself fails the wrapper is the rejection with the generic notice.
\<close>

theorem require_permission_fallback:
  assumes "chat_type (msg_chat message) \<noteq> PRIVATE"
    and "get_chat_member env (chat_id (msg_chat message)) Me (plat w) = (Inr bot_member, p1)"
    and "status bot_member = OWNER \<or> status bot_member = ADMINISTRATOR"
    and "from_user message = Some uid"
    and "get_chat_member env (chat_id (msg_chat message)) (User uid) p1 = (Inl e, p2)"
  shows "(is_UserAdminInvalid e \<longrightarrow>
            require_permission permission env message func w =
              reject env message msg_user_unverified (w\<lparr>plat := p2\<rparr>)) \<and>
         (\<not> is_UserAdminInvalid e \<longrightarrow>
            (\<forall>admins p3. get_chat_administrators env (chat_id (msg_chat message)) p2 = (Inr admins, p3) \<longrightarrow>
               (case find (\<lambda>admin. user_id admin = uid) admins of
                  None \<Rightarrow>
                    \<forall>sent p4. message_reply env message msg_admins_only p3 = (Inr sent, p4) \<longrightarrow>
                      require_permission permission env message func w =
                        (Inr None, w\<lparr>plat := p4, trace := trace w @ [Reply msg_admins_only]\<rparr>)
                | Some admin \<Rightarrow>
                    if status admin = OWNER \<or> has_privilege admin permission
                    then \<forall>r w'. func (w\<lparr>plat := p3, trace := trace w @ [CallBody]\<rparr>) = (Inr r, w') \<longrightarrow>
                           require_permission permission env message func w = (Inr (Some r), w')
                    else \<forall>sent p4. message_reply env message (msg_need_permission permission) p3 = (Inr sent, p4) \<longrightarrow>
                           require_permission permission env message func w =
                             (Inr None, w\<lparr>plat := p4, trace := trace w @ [Reply (msg_need_permission permission)]\<rparr>))) \<and>
            (\<forall>e2 p3. get_chat_administrators env (chat_id (msg_chat message)) p2 = (Inl e2, p3) \<longrightarrow>
               require_permission permission env message func w =
                 reject env message msg_check_failed (w\<lparr>plat := p3\<rparr>)))"
proof -
  have member: "call (get_chat_member env (chat_id (msg_chat message)) (User uid)) (w\<lparr>plat := p1\<rparr>)
                  = (Inl e, w\<lparr>plat := p2\<rparr>)"
    using assms(5) by (simp add: call_def)
  have scan: "call (get_chat_administrators env (chat_id (msg_chat message))) (w\<lparr>plat := p2\<rparr>)
                = (r, w\<lparr>plat := p3\<rparr>)"
    if "get_chat_administrators env (chat_id (msg_chat message)) p2 = (r, p3)" for r p3
    using that by (simp add: call_def)
  show ?thesis
    unfolding require_permission_user_gate [OF assms(1-4)] user_gate_def
    by (auto simp: try_except_def bind_prog_def member scan scan_admins_find
          call_body_returns reject_sent split: option.splits)
qed

text \<open>
  The claim fails for \<open>UserAdminInvalid\<close>: in the example chat with that error on the lookup
  of a user, the wrapper answers the owner, user 1, that the permissions cannot be
  verified; the outside state still counts no enumeration, although one would have listed
  user 1 as the owner.
\<close>

theorem require_permission_no_fallback_counterexample:
  "get_chat_member invalid_user_env 7 (User 1) 0 = (Inl (UserAdminInvalid (lit ''USER_ADMIN_INVALID'')), 0) \<and>
   get_chat_administrators invalid_user_env 7 0 = (Inr [the_owner, the_moderator, the_helper], 1) \<and>
   require_permission (lit ''can_restrict_members'') invalid_user_env (group_message 1)
       (ret () :: (nat world, unit) prog) start
     = (Inr None, start\<lparr>trace := [Reply msg_user_unverified]\<rparr>)"
  by (simp add: require_permission_def bot_gate_def user_gate_def is_admin_status_def
        invalid_user_env_def example_defs prog_defs)

theorem require_permission_fallback_witness:
  "require_permission (lit ''can_restrict_members'') flaky_lookup_env (group_message 1)
       (ret () :: (nat world, unit) prog) start
     = (Inr (Some ()), \<lparr>plat = 1, trace = [CallBody], active_gemini_requests = {}\<rparr>) \<and>
   require_permission (lit ''can_restrict_members'') flaky_lookup_env (group_message 3)
       (ret () :: (nat world, unit) prog) start
     = (Inr None, \<lparr>plat = 1, trace = [Reply (msg_need_permission (lit ''can_restrict_members''))],
                   active_gemini_requests = {}\<rparr>) \<and>
   require_permission (lit ''can_restrict_members'') flaky_lookup_env (group_message 5)
       (ret () :: (nat world, unit) prog) start
     = (Inr None, \<lparr>plat = 1, trace = [Reply msg_admins_only], active_gemini_requests = {}\<rparr>)"
proof -
  have np: "chat_type (msg_chat (group_message uid)) \<noteq> PRIVATE" for uid
    by (simp add: group_message_def)
  have b: "get_chat_member flaky_lookup_env (chat_id (msg_chat (group_message uid))) Me (plat start)
             = (Inr the_bot, 0)" for uid
    by (simp add: flaky_lookup_env_def example_defs ret_def)
  have bs: "status the_bot = OWNER \<or> status the_bot = ADMINISTRATOR"
    by (simp add: the_bot_def)
  have fu: "from_user (group_message uid) = Some uid" for uid
    by (simp add: group_message_def)
  have m: "get_chat_member flaky_lookup_env (chat_id (msg_chat (group_message uid))) (User uid) 0
             = (Inl timeout, 0)" for uid
    by (simp add: flaky_lookup_env_def group_env_def raise_def)
  show ?thesis
    using require_permission_fallback [OF np [of 1] b [of 1] bs fu [of 1] m [of 1],
        where permission = "lit ''can_restrict_members''" and func = "ret ()"]
      require_permission_fallback [OF np [of 3] b [of 3] bs fu [of 3] m [of 3],
        where permission = "lit ''can_restrict_members''" and func = "ret ()"]
      require_permission_fallback [OF np [of 5] b [of 5] bs fu [of 5] m [of 5],
        where permission = "lit ''can_restrict_members''" and func = "ret ()"]
    by (simp add: has_privilege_def flaky_lookup_env_def example_defs ret_def)
qed

section \<open>What leaves a gate\<close>

lemma reply_returns:
  assumes "replies_sent env message"
  shows "\<exists>sent w'. reply env message text w = (Inr sent, w')"
proof -
  obtain sent p' where "message_reply env message text (plat w) = (Inr sent, p')"
    using assms unfolding replies_sent_def by blast
  then show ?thesis
    by (simp add: reply_def bind_prog_def log_def call_def)
qed

lemma reject_returns:
  assumes "replies_sent env message"
  shows "\<exists>r w'. reject env message text w = (Inr r, w')"
  unfolding reject_def
  by (rule bind_prog_returns) (auto simp: reply_returns [OF assms] ret_def)

lemma bot_gate_returns:
  assumes "replies_sent env message"
  shows "\<exists>go w'. bot_gate env message cid w = (Inr go, w')"
  unfolding bot_gate_def
proof (rule try_except_returns)
  fix e s
  show "\<exists>a s'. bind_prog (reply env message msg_bot_unverified) (\<lambda>sent. ret False) s = (Inr a, s')"
    by (rule bind_prog_returns) (auto simp: reply_returns [OF assms] ret_def)
qed

lemma admin_only_returns:
  assumes "replies_sent env message"
  shows "\<exists>r w'. admin_only env message func w = (Inr r, w')"
  unfolding admin_only_def
  by (rule try_except_returns) (rule reject_returns [OF assms])

lemma user_gate_returns:
  assumes "replies_sent env message"
  shows "\<exists>r w'. user_gate permission env message func uid w = (Inr r, w')"
  unfolding user_gate_def
proof (rule try_except_returns)
  fix e s
  show "\<exists>a s'. (if is_UserAdminInvalid e then reject env message msg_user_unverified
          else try_except
                 (bind_prog (call (get_chat_administrators env (chat_id (msg_chat message))))
                    (scan_admins env message permission func uid))
                 (\<lambda>e2. reject env message msg_check_failed)) s = (Inr a, s')"
  proof (cases "is_UserAdminInvalid e")
    case True
    then show ?thesis by (simp add: reject_returns [OF assms])
  next
    case False
    have "\<exists>a s'. try_except
                 (bind_prog (call (get_chat_administrators env (chat_id (msg_chat message))))
                    (scan_admins env message permission func uid))
                 (\<lambda>e2. reject env message msg_check_failed) s = (Inr a, s')"
      by (rule try_except_returns) (rule reject_returns [OF assms])
    with False show ?thesis by simp
  qed
qed

lemma require_permission_returns:
  assumes "replies_sent env message" and "chat_type (msg_chat message) \<noteq> PRIVATE"
    and "from_user message = Some uid"
  shows "\<exists>r w'. require_permission permission env message func w = (Inr r, w')"
proof -
  obtain go w1 where g: "bot_gate env message (chat_id (msg_chat message)) w = (Inr go, w1)"
    using bot_gate_returns [OF assms(1)] by blast
  show ?thesis
  proof (cases go)
    case True
    with g assms(2,3) user_gate_returns [OF assms(1), of permission func uid w1] show ?thesis
      by (simp add: require_permission_def bind_prog_def from_user_id_def ret_def)
  next
    case False
    with g assms(2) show ?thesis
      by (simp add: require_permission_def bind_prog_def ret_def)
  qed
qed

text \<open>
  C4, as the code has it. As long as the replies on the message are delivered:
  \<open>admin_only\<close> raises nothing, whatever the lookups and the body do, and so neither does
  \<open>protect_admins\<close> when it is wrapped in \<open>admin_only\<close>; \<open>require_permission\<close> raises
  nothing in a chat that is not private for a message that has a sending user. On its own,
  \<open>protect_admins\<close> has no handler: a failure of its fetch of the chat, or of the
  extraction of the target, leaves the wrapper as it was raised.
\<close>

theorem gates_contain_lookup_failures:
  assumes "replies_sent env message"
  shows "(\<exists>r w'. admin_only env message func w = (Inr r, w')) \<and>
         (\<exists>r w'. admin_only env message (protect_admins env message func) w = (Inr r, w')) \<and>
         (chat_type (msg_chat message) \<noteq> PRIVATE \<and> from_user message \<noteq> None \<longrightarrow>
            (\<exists>r w'. require_permission permission env message func w = (Inr r, w'))) \<and>
         (\<forall>e p1. get_chat env (chat_id (msg_chat message)) (plat w) = (Inl e, p1) \<longrightarrow>
            protect_admins env message func w = (Inl e, w\<lparr>plat := p1\<rparr>)) \<and>
         (\<forall>chat p1 e p2.
            get_chat env (chat_id (msg_chat message)) (plat w) = (Inr chat, p1) \<and>
            chat_type chat \<noteq> PRIVATE \<and>
            extract_user_and_reason env message p1 = (Inl e, p2) \<longrightarrow>
            protect_admins env message func w = (Inl e, w\<lparr>plat := p2\<rparr>))"
proof (intro conjI)
  show "\<exists>r w'. admin_only env message func w = (Inr r, w')"
    by (rule admin_only_returns [OF assms])
  show "\<exists>r w'. admin_only env message (protect_admins env message func) w = (Inr r, w')"
    by (rule admin_only_returns [OF assms])
  show "chat_type (msg_chat message) \<noteq> PRIVATE \<and> from_user message \<noteq> None \<longrightarrow>
          (\<exists>r w'. require_permission permission env message func w = (Inr r, w'))"
  proof
    assume h: "chat_type (msg_chat message) \<noteq> PRIVATE \<and> from_user message \<noteq> None"
    then obtain uid where uid: "from_user message = Some uid"
      by auto
    from h have np: "chat_type (msg_chat message) \<noteq> PRIVATE"
      by simp
    show "\<exists>r w'. require_permission permission env message func w = (Inr r, w')"
      by (rule require_permission_returns [OF assms np uid])
  qed
  show "\<forall>e p1. get_chat env (chat_id (msg_chat message)) (plat w) = (Inl e, p1) \<longrightarrow>
          protect_admins env message func w = (Inl e, w\<lparr>plat := p1\<rparr>)"
    by (simp add: protect_admins_def bind_prog_def call_def)
  show "\<forall>chat p1 e p2.
          get_chat env (chat_id (msg_chat message)) (plat w) = (Inr chat, p1) \<and>
          chat_type chat \<noteq> PRIVATE \<and>
          extract_user_and_reason env message p1 = (Inl e, p2) \<longrightarrow>
          protect_admins env message func w = (Inl e, w\<lparr>plat := p2\<rparr>)"
    by (simp add: protect_admins_def bind_prog_def call_def)
qed

text \<open>
  The claim fails for \<open>protect_admins\<close>: in the example chat with the fetch of the chat
  timing out, the time-out leaves the wrapper.
\<close>

theorem protect_admins_propagates_counterexample:
  "protect_admins chat_down_env (group_message 5) (ret () :: (nat world, unit) prog) start
     = (Inl timeout, start)"
  by (simp add: protect_admins_def chat_down_env_def example_defs prog_defs)

theorem gates_contain_lookup_failures_witness:
  "replies_sent chat_down_env (group_message 5) \<and>
   (\<exists>r w'. admin_only chat_down_env (group_message 5) (raise timeout :: (nat world, unit) prog) start = (Inr r, w')) \<and>
   (\<exists>r w'. require_permission (lit ''can_restrict_members'') chat_down_env (group_message 5)
              (raise timeout :: (nat world, unit) prog) start = (Inr r, w')) \<and>
   protect_admins chat_down_env (group_message 5) (raise timeout :: (nat world, unit) prog) start
     = (Inl timeout, start)"
proof -
  have r: "replies_sent chat_down_env (group_message 5)"
    by (simp add: replies_sent_def chat_down_env_def group_env_def ret_def)
  show ?thesis
    using r gates_contain_lookup_failures [OF r, of "raise timeout :: (nat world, unit) prog" start
        "lit ''can_restrict_members''"]
    by (simp add: chat_down_env_def group_env_def group_message_def start_def raise_def)
qed

section \<open>The AI relay handler\<close>

lemma reply_step:
  assumes "replies_sent env message"
  shows "\<exists>sent w'. reply env message text w = (Inr sent, w') \<and> trace w' = trace w @ [Reply text] \<and>
           active_gemini_requests w' = active_gemini_requests w"
proof -
  obtain sent p' where "message_reply env message text (plat w) = (Inr sent, p')"
    using assms unfolding replies_sent_def by blast
  then show ?thesis
    by (simp add: reply_def bind_prog_def log_def call_def)
qed

lemma send_parts_trace:
  assumes "replies_sent env message"
  shows "\<exists>w'. send_parts env message parts w = (Inr (), w') \<and>
           trace w' = trace w @ concat (map (\<lambda>part. [Reply (msg_answer env part), Sleep]) parts) \<and>
           active_gemini_requests w' = active_gemini_requests w"
proof (induction parts arbitrary: w)
  case Nil
  show ?case by (simp add: ret_def)
next
  case (Cons part parts)
  obtain sent w1 where r: "reply env message (msg_answer env part) w = (Inr sent, w1)"
      "trace w1 = trace w @ [Reply (msg_answer env part)]"
      "active_gemini_requests w1 = active_gemini_requests w"
    using reply_step [OF assms] by blast
  obtain w2 where s: "send_parts env message parts (w1\<lparr>trace := trace w1 @ [Sleep]\<rparr>) = (Inr (), w2)"
      "trace w2 = trace (w1\<lparr>trace := trace w1 @ [Sleep]\<rparr>)
                   @ concat (map (\<lambda>part. [Reply (msg_answer env part), Sleep]) parts)"
      "active_gemini_requests w2 = active_gemini_requests (w1\<lparr>trace := trace w1 @ [Sleep]\<rparr>)"
    using Cons.IH by blast
  show ?case
    using r s by (simp add: bind_prog_def log_def)
qed

lemma send_response_trace:
  assumes "replies_sent env message"
  shows "\<exists>w'. send_response env message (Some t) w = (Inr (), w') \<and>
           trace w' = trace w @ answer_events env t \<and>
           active_gemini_requests w' = active_gemini_requests w"
proof (cases "length t > 4000")
  case True
  then show ?thesis
    using send_parts_trace [OF assms, of "parts_of 4000 t" w]
    by (simp add: send_response_def answer_events_def)
next
  case False
  obtain sent w1 where r: "reply env message (msg_answer env t) w = (Inr sent, w1)"
      "trace w1 = trace w @ [Reply (msg_answer env t)]"
      "active_gemini_requests w1 = active_gemini_requests w"
    using reply_step [OF assms] by blast
  with False show ?thesis
    by (simp add: send_response_def answer_events_def bind_prog_def ret_def)
qed

lemma gemini_command_answers:
  assumes "chat_id (msg_chat message) \<notin> active_gemini_requests w"
    and "save_usage env (msg_chat message) (lit ''gemini'') (plat w) = (Inr (), p1)"
    and "msg_text message = Some t"
    and "prompt = py_strip (py_replace (py_replace t (lit ''/gemini'') []) (lit ''@'' @ BOT_USERNAME env) [])"
    and "prompt \<noteq> []"
    and "message_reply env message msg_wait_moment p1 = (Inr waiting_msg, p2)"
    and "genai_setup env p2 = (Inr (), p3)"
    and "generate_content env prompt p3 = (Inr (Some response_text), p4)"
    and "replies_sent env message"
    and "deletes_done env"
  shows "\<exists>w'. gemini_command env message w = (Inr (), w') \<and>
           trace w' = trace w @ [SaveUsage (lit ''gemini''), Reply msg_wait_moment, GenerateContent prompt]
                        @ answer_events env response_text @ [Delete waiting_msg] \<and>
           active_gemini_requests w' = active_gemini_requests w"
proof -
  define cid where "cid = chat_id (msg_chat message)"
  define w4 where "w4 = w\<lparr>active_gemini_requests := insert cid (active_gemini_requests w),
     trace := trace w @ [SaveUsage (lit ''gemini''), Reply msg_wait_moment, GenerateContent prompt],
     plat := p4\<rparr>"
  obtain w5 where s: "send_response env message (Some response_text) w4 = (Inr (), w5)"
      "trace w5 = trace w4 @ answer_events env response_text"
      "active_gemini_requests w5 = active_gemini_requests w4"
    using send_response_trace [OF assms(9)] by blast
  obtain p6 where d: "message_delete env waiting_msg (plat w5) = (Inr (), p6)"
    using assms(10) unfolding deletes_done_def by blast
  have "gemini_command env message w =
          (Inr (), w5\<lparr>plat := p6, trace := trace w5 @ [Delete waiting_msg],
                      active_gemini_requests := active_gemini_requests w5 - {cid}\<rparr>)"
    using assms(1-8) s(1) d
    by (simp add: gemini_command_def gemini_try_def try_finally_def try_except_def bind_prog_def
          add_active_def discard_active_def log_def call_def reply_def prompt_of_def ret_def
          cid_def [symmetric] w4_def)
  moreover have "active_gemini_requests w5 - {cid} = active_gemini_requests w"
    using assms(1) s(3) by (auto simp: w4_def cid_def)
  ultimately show ?thesis
    using s(2) by (simp add: w4_def)
qed

lemma parts_of_8001:
  assumes "length t = 8001"
  shows "parts_of 4000 t = [take 4000 t, take 4000 (drop 4000 t), drop 8000 t]"
proof -
  have "[0 ..< (3::nat)] = [0, 1, 2]"
    by (simp add: upt_rec)
  then have "py_range 8001 4000 = [0, 4000, 8000]"
    by (simp add: py_range_def)
  with assms show ?thesis
    by (simp add: parts_of_def)
qed

lemma ask_prompt:
  "py_strip (py_replace (py_replace (lit ''/gemini hi'') (lit ''/gemini'') []) (lit ''@'' @ lit ''ShinBot'') []) = lit ''hi''"
  by (simp add: lit_def py_replace_def py_strip_def isspace_def)

text \<open>
  C5. For a chat with no request in flight, when the usage is recorded, the prompt is not
  empty, the interim notice is sent, the AI backend returns a response text, and the
  replies and the deletion of the interim notice go through: a text shorter than 4000
  units is relayed in exactly one reply, whose body is the header
  \<open>**\<close>, \<open>GEMINI_MODEL.title()\<close>, \<open>:** \<close> followed by the text; a text of exactly 8001
  units is relayed in exactly three replies, whose bodies are that header followed by the
  first 4000 units, by the next 4000 units and by the last unit, in this order, each
  reply followed by a pause. The interim notice \<open>Wait a moment...\<close> before the call of the
  backend is the only other reply of the handler.
\<close>

theorem gemini_command_segments:
  assumes "chat_id (msg_chat message) \<notin> active_gemini_requests w"
    and "save_usage env (msg_chat message) (lit ''gemini'') (plat w) = (Inr (), p1)"
    and "msg_text message = Some t"
    and "prompt = py_strip (py_replace (py_replace t (lit ''/gemini'') []) (lit ''@'' @ BOT_USERNAME env) [])"
    and "prompt \<noteq> []"
    and "message_reply env message (lit ''Wait a moment...'') p1 = (Inr waiting_msg, p2)"
    and "genai_setup env p2 = (Inr (), p3)"
    and "generate_content env prompt p3 = (Inr (Some response_text), p4)"
    and "replies_sent env message"
    and "deletes_done env"
  shows "(length response_text < 4000 \<longrightarrow>
            fst (gemini_command env message w) = Inr () \<and>
            trace (snd (gemini_command env message w)) =
              trace w @
              [SaveUsage (lit ''gemini''), Reply (lit ''Wait a moment...''), GenerateContent prompt,
               Reply (lit ''**'' @ GEMINI_MODEL_title env @ lit '':** '' @ response_text),
               Delete waiting_msg]) \<and>
         (length response_text = 8001 \<longrightarrow>
            fst (gemini_command env message w) = Inr () \<and>
            trace (snd (gemini_command env message w)) =
              trace w @
              [SaveUsage (lit ''gemini''), Reply (lit ''Wait a moment...''), GenerateContent prompt,
               Reply (lit ''**'' @ GEMINI_MODEL_title env @ lit '':** '' @ take 4000 response_text),
               Sleep,
               Reply (lit ''**'' @ GEMINI_MODEL_title env @ lit '':** ''
                        @ take 4000 (drop 4000 response_text)),
               Sleep,
               Reply (lit ''**'' @ GEMINI_MODEL_title env @ lit '':** '' @ drop 8000 response_text),
               Sleep,
               Delete waiting_msg] \<and>
            length (take 4000 response_text) = 4000 \<and>
            length (take 4000 (drop 4000 response_text)) = 4000 \<and>
            length (drop 8000 response_text) = 1 \<and>
            take 4000 response_text @ take 4000 (drop 4000 response_text) @ drop 8000 response_text
              = response_text)"
proof -
  have sent: "message_reply env message msg_wait_moment p1 = (Inr waiting_msg, p2)"
    using assms(6) by (simp add: msg_wait_moment_def)
  obtain w' where run: "gemini_command env message w = (Inr (), w')"
      "trace w' = trace w @ [SaveUsage (lit ''gemini''), Reply msg_wait_moment, GenerateContent prompt]
                        @ answer_events env response_text @ [Delete waiting_msg]"
    using gemini_command_answers [OF assms(1-5) sent assms(7-10)] by blast
  have short: "answer_events env response_text =
        [Reply (lit ''**'' @ GEMINI_MODEL_title env @ lit '':** '' @ response_text)]"
    if "length response_text < 4000"
    using that by (simp add: answer_events_def msg_answer_def)
  have long: "answer_events env response_text =
        [Reply (lit ''**'' @ GEMINI_MODEL_title env @ lit '':** '' @ take 4000 response_text), Sleep,
         Reply (lit ''**'' @ GEMINI_MODEL_title env @ lit '':** '' @ take 4000 (drop 4000 response_text)),
         Sleep,
         Reply (lit ''**'' @ GEMINI_MODEL_title env @ lit '':** '' @ drop 8000 response_text), Sleep]"
    if "length response_text = 8001"
    using that by (simp add: answer_events_def parts_of_8001 msg_answer_def)
  have join: "take 4000 response_text @ take 4000 (drop 4000 response_text) @ drop 8000 response_text
              = response_text"
  proof -
    have "take 4000 (drop 4000 response_text) @ drop 8000 response_text = drop 4000 response_text"
      using append_take_drop_id [of 4000 "drop 4000 response_text"] by simp
    then show ?thesis by simp
  qed
  show ?thesis
    using run short long join by (simp add: msg_wait_moment_def)
qed

text \<open>
  In the example chat the model is titled \<open>Gemini\<close>: the answer \<open>hi\<close> is relayed as
  \<open>**Gemini:** hi\<close>, written here by its code points, and an answer of 8001 letters
  \<open>a\<close> as the header before 4000 letters, before 4000 letters and before one letter.
\<close>

theorem gemini_command_segments_witness:
  "trace (snd (gemini_command group_env ask start)) =
     [SaveUsage [103, 101, 109, 105, 110, 105],
      Reply [87, 97, 105, 116, 32, 97, 32, 109, 111, 109, 101, 110, 116, 46, 46, 46],
      GenerateContent [104, 105],
      Reply [42, 42, 71, 101, 109, 105, 110, 105, 58, 42, 42, 32, 104, 105],
      Delete 100] \<and>
   trace (snd (gemini_command long_answer_env ask start)) =
     [SaveUsage [103, 101, 109, 105, 110, 105],
      Reply [87, 97, 105, 116, 32, 97, 32, 109, 111, 109, 101, 110, 116, 46, 46, 46],
      GenerateContent [104, 105],
      Reply ([42, 42, 71, 101, 109, 105, 110, 105, 58, 42, 42, 32] @ replicate 4000 97), Sleep,
      Reply ([42, 42, 71, 101, 109, 105, 110, 105, 58, 42, 42, 32] @ replicate 4000 97), Sleep,
      Reply ([42, 42, 71, 101, 109, 105, 110, 105, 58, 42, 42, 32] @ [97]), Sleep,
      Delete 100]"
proof -
  have h1: "chat_id (msg_chat ask) \<notin> active_gemini_requests start"
    by (simp add: start_def)
  have h2: "save_usage group_env (msg_chat ask) (lit ''gemini'') (plat start) = (Inr (), 0)"
    and h2': "save_usage long_answer_env (msg_chat ask) (lit ''gemini'') (plat start) = (Inr (), 0)"
    by (simp_all add: long_answer_env_def group_env_def start_def ret_def)
  have h3: "msg_text ask = Some (lit ''/gemini hi'')"
    by (simp add: ask_def)
  have h4: "lit ''hi'' = py_strip (py_replace (py_replace (lit ''/gemini hi'') (lit ''/gemini'') [])
                                     (lit ''@'' @ BOT_USERNAME group_env) [])"
    and h4': "lit ''hi'' = py_strip (py_replace (py_replace (lit ''/gemini hi'') (lit ''/gemini'') [])
                                     (lit ''@'' @ BOT_USERNAME long_answer_env) [])"
    by (simp_all add: long_answer_env_def group_env_def ask_prompt)
  have h5: "lit ''hi'' \<noteq> []"
    by (simp add: lit_def)
  have h6: "message_reply group_env ask (lit ''Wait a moment...'') 0 = (Inr 100, 0)"
    and h6': "message_reply long_answer_env ask (lit ''Wait a moment...'') 0 = (Inr 100, 0)"
    by (simp_all add: long_answer_env_def group_env_def ret_def)
  have h7: "genai_setup group_env 0 = (Inr (), 0)"
    and h7': "genai_setup long_answer_env 0 = (Inr (), 0)"
    by (simp_all add: long_answer_env_def group_env_def ret_def)
  have h8: "generate_content group_env (lit ''hi'') 0 = (Inr (Some (lit ''hi'')), 0)"
    and h8': "generate_content long_answer_env (lit ''hi'') 0 = (Inr (Some (replicate 8001 97)), 0)"
    by (simp_all add: long_answer_env_def group_env_def ret_def)
  have h9: "replies_sent group_env ask" and h9': "replies_sent long_answer_env ask"
    by (simp_all add: replies_sent_def long_answer_env_def group_env_def ret_def)
  have h10: "deletes_done group_env" and h10': "deletes_done long_answer_env"
    by (simp_all add: deletes_done_def long_answer_env_def group_env_def ret_def)
  have short: "length (lit ''hi'') < 4000"
    by (simp add: lit_def)
  have title: "GEMINI_MODEL_title group_env = lit ''Gemini''"
      "GEMINI_MODEL_title long_answer_env = lit ''Gemini''"
    by (simp_all add: long_answer_env_def group_env_def)
  show ?thesis
    using gemini_command_segments [OF h1 h2 h3 h4 h5 h6 h7 h8 h9 h10] short
      gemini_command_segments [OF h1 h2' h3 h4' h5 h6' h7' h8' h9' h10']
    by (simp add: start_def title lit_def)
qed

text \<open>
  The single-flight guard. A request for a chat that is in the set is answered with the
  wait notice and changes nothing else; the \<open>try\<close> statement of the handler releases
  the chat on every outcome; so a request that gets past the usage logger releases it.
\<close>

lemma reply_effect:
  "trace (snd (reply env message text w)) = trace w @ [Reply text] \<and>
   active_gemini_requests (snd (reply env message text w)) = active_gemini_requests w"
  by (simp add: reply_def bind_prog_def log_def call_def split: prod.splits)

lemma gemini_command_dropped:
  assumes "chat_id (msg_chat message) \<in> active_gemini_requests w"
  shows "trace (snd (gemini_command env message w)) = trace w @ [Reply msg_wait_previous] \<and>
         active_gemini_requests (snd (gemini_command env message w)) = active_gemini_requests w"
proof (cases "reply env message msg_wait_previous w")
  case (Pair r w')
  then have "snd (gemini_command env message w) = w'"
    using assms by (cases r) (simp_all add: gemini_command_def bind_prog_def ret_def)
  with Pair reply_effect [of env message msg_wait_previous w] show ?thesis
    by simp
qed

lemma gemini_try_releases:
  "chat_id (msg_chat message) \<notin> active_gemini_requests (snd (gemini_try env message w))"
  by (simp add: gemini_try_def try_finally_def discard_active_def split: prod.splits)

lemma gemini_command_releases:
  assumes "chat_id (msg_chat message) \<notin> active_gemini_requests w"
    and "save_usage env (msg_chat message) (lit ''gemini'') (plat w) = (Inr (), p1)"
  shows "chat_id (msg_chat message) \<notin> active_gemini_requests (snd (gemini_command env message w))"
proof -
  have "gemini_command env message w =
          gemini_try env message
            (w\<lparr>active_gemini_requests := insert (chat_id (msg_chat message)) (active_gemini_requests w),
               trace := trace w @ [SaveUsage (lit ''gemini'')], plat := p1\<rparr>)"
    using assms by (simp add: gemini_command_def bind_prog_def add_active_def log_def call_def)
  then show ?thesis
    by (simp only: gemini_try_releases not_False_eq_True)
qed

text \<open>
  C1. The release is not guaranteed on every exit path: \<open>save_usage\<close> is awaited after
  the chat is added and before the \<open>try\<close> statement begins. With the usage store failing,
  the request ends with the exception of the logger and chat 7 stays in the set.
\<close>

theorem gemini_command_usage_failure_keeps_guard:
  "gemini_command usage_down_env ask start =
     (Inl (Exception (lit ''database is locked'')),
      \<lparr>plat = 0, trace = [SaveUsage (lit ''gemini'')], active_gemini_requests = {7}\<rparr>)"
  by (simp add: gemini_command_def usage_down_env_def group_env_def ask_def start_def
        bind_prog_def add_active_def log_def call_def raise_def)

text \<open>
  C2. After that first request has ended, with a failure, the next request for chat 7 is
  still answered with the wait notice, even with a usage store that works again: the
  backend is not called and the chat stays in the set.
\<close>

theorem gemini_command_dropped_after_usage_failure:
  "gemini_command group_env ask (snd (gemini_command usage_down_env ask start)) =
     (Inr (),
      \<lparr>plat = 0, trace = [SaveUsage (lit ''gemini''), Reply msg_wait_previous],
       active_gemini_requests = {7}\<rparr>)"
  by (simp add: gemini_command_def usage_down_env_def group_env_def ask_def start_def
        bind_prog_def add_active_def log_def call_def raise_def reply_def ret_def)

end
